theory Spec2Isabelle
  imports Main "HOL-Library.Word"
begin

section \<open>JavaScript strings\<close>

text \<open>
  A JavaScript string is a sequence of UTF-16 code units; \<open>length\<close>, indexing and
  \<open>slice\<close> all count code units. Numbers that the cursor code handles are offsets and
  lengths; they are modelled as \<open>int\<close> (no fractional values, no NaN).
\<close>

type_synonym code_unit = "16 word"
type_synonym jsstring = "code_unit list"

definition js :: "string \<Rightarrow> jsstring" where
  "js s = map (\<lambda>c. of_nat (of_char c)) s"

definition newline :: code_unit where
  "newline = 10"

text \<open>\<open>s.slice(start, end)\<close> and \<open>s.slice(start)\<close>: negative indices count from the end.\<close>

definition slice2 :: "jsstring \<Rightarrow> int \<Rightarrow> int \<Rightarrow> jsstring" where
  "slice2 s start fin =
     (let len = int (length s);
          from = (if start < 0 then max (len + start) 0 else min start len);
          to = (if fin < 0 then max (len + fin) 0 else min fin len)
      in take (nat (to - from)) (drop (nat from) s))"

definition slice1 :: "jsstring \<Rightarrow> int \<Rightarrow> jsstring" where
  "slice1 s start = slice2 s start (int (length s))"

text \<open>\<open>s[i] ?? ''\<close>: the one-unit string at index \<open>i\<close>, the empty string out of range.\<close>

definition charAt :: "jsstring \<Rightarrow> int \<Rightarrow> jsstring" where
  "charAt s i = (if 0 \<le> i \<and> i < int (length s) then [s ! nat i] else [])"

text \<open>The character class \<open>\s\<close> of a regular expression without the unicode flag.\<close>

definition isSpace :: "code_unit \<Rightarrow> bool" where
  "isSpace c \<longleftrightarrow>
     c = 9 \<or> c = 10 \<or> c = 11 \<or> c = 12 \<or> c = 13 \<or> c = 32 \<or> c = 160 \<or> c = 5760 \<or>
     (8192 \<le> c \<and> c \<le> 8202) \<or> c = 8232 \<or> c = 8233 \<or> c = 8239 \<or> c = 8287 \<or>
     c = 12288 \<or> c = 65279"

text \<open>\<open>/\s/.test(s)\<close>: some unit of \<open>s\<close> is white space.\<close>

definition testSpace :: "jsstring \<Rightarrow> bool" where
  "testSpace s = list_ex isSpace s"

text \<open>\<open>s.split('\n')\<close>: never empty; the empty string splits into one empty line.\<close>

fun split_nl :: "jsstring \<Rightarrow> jsstring list" where
  "split_nl [] = [[]]"
| "split_nl (c # cs) =
     (if c = newline then [] # split_nl cs
      else (case split_nl cs of [] \<Rightarrow> [[c]] | l # ls \<Rightarrow> (c # l) # ls))"

text \<open>\<open>lines[i] ?? ''\<close>\<close>

definition lineAt :: "jsstring list \<Rightarrow> nat \<Rightarrow> jsstring" where
  "lineAt ls i = (if i < length ls then ls ! i else [])"

text \<open>\<open>mask.repeat(n)\<close>\<close>

definition repeat :: "jsstring \<Rightarrow> nat \<Rightarrow> jsstring" where
  "repeat s n = concat (replicate n s)"

section \<open>The cursor (class \<open>Cursor\<close>)\<close>

record Cursor =
  "text" :: jsstring
  columns :: int
  offset :: int

definition fromText :: "jsstring \<Rightarrow> int \<Rightarrow> int \<Rightarrow> Cursor" where
  "fromText t cols off =
     \<lparr>text = t, columns = cols, offset = max 0 (min off (int (length t)))\<rparr>"

definition equals :: "Cursor \<Rightarrow> Cursor \<Rightarrow> bool" where
  "equals c other \<longleftrightarrow>
     text c = text other \<and> columns c = columns other \<and> offset c = offset other"

text \<open>The private helpers. Line and column indices are lengths of lists, so naturals.\<close>

definition getLineColumn :: "Cursor \<Rightarrow> nat \<times> nat" where
  "getLineColumn c =
     (let lines = split_nl (slice2 (text c) 0 (offset c));
          lineIndex = length lines - 1;
          lastLine = lineAt lines lineIndex
      in (lineIndex, length lastLine))"

function sumLines :: "jsstring list \<Rightarrow> nat \<Rightarrow> nat \<Rightarrow> nat \<Rightarrow> nat" where
  "sumLines lines lineIndex i acc =
     (if i < lineIndex \<and> i < length lines
      then sumLines lines lineIndex (i + 1) (acc + (length (lineAt lines i) + 1))
      else acc)"
  by pat_completeness auto
termination
  by (relation "measure (\<lambda>(lines, lineIndex, i, acc). length lines - i)") auto

declare sumLines.simps [simp del]

definition getOffsetFromLineColumn :: "Cursor \<Rightarrow> nat \<Rightarrow> nat \<Rightarrow> int" where
  "getOffsetFromLineColumn c lineIndex columnIndex =
     (let lines = split_nl (text c);
          off = sumLines lines lineIndex 0 0;
          targetLine = lineAt lines lineIndex;
          off' = off + min columnIndex (length targetLine)
      in int (min off' (length (text c))))"

definition left :: "Cursor \<Rightarrow> Cursor" where
  "left c = \<lparr>text = text c, columns = columns c, offset = max 0 (offset c - 1)\<rparr>"

definition right :: "Cursor \<Rightarrow> Cursor" where
  "right c =
     \<lparr>text = text c, columns = columns c, offset = min (int (length (text c))) (offset c + 1)\<rparr>"

definition up :: "Cursor \<Rightarrow> Cursor" where
  "up c =
     (let lines = split_nl (text c);
          (lineIndex, columnIndex) = getLineColumn c
      in if lineIndex = 0 then c
         else let prevLine = lineAt lines (lineIndex - 1);
                  newColumnIndex = min columnIndex (length prevLine);
                  newOffset = getOffsetFromLineColumn c (lineIndex - 1) newColumnIndex
              in \<lparr>text = text c, columns = columns c, offset = newOffset\<rparr>)"

definition down :: "Cursor \<Rightarrow> Cursor" where
  "down c =
     (let lines = split_nl (text c);
          (lineIndex, columnIndex) = getLineColumn c
      in if lineIndex \<ge> length lines - 1 then c
         else let nextLine = lineAt lines (lineIndex + 1);
                  newColumnIndex = min columnIndex (length nextLine);
                  newOffset = getOffsetFromLineColumn c (lineIndex + 1) newColumnIndex
              in \<lparr>text = text c, columns = columns c, offset = newOffset\<rparr>)"

definition startOfLine :: "Cursor \<Rightarrow> Cursor" where
  "startOfLine c =
     (let (lineIndex, columnIndex) = getLineColumn c;
          newOffset = getOffsetFromLineColumn c lineIndex 0
      in \<lparr>text = text c, columns = columns c, offset = newOffset\<rparr>)"

definition endOfLine :: "Cursor \<Rightarrow> Cursor" where
  "endOfLine c =
     (let lines = split_nl (text c);
          (lineIndex, columnIndex) = getLineColumn c;
          currentLine = lineAt lines lineIndex;
          newOffset = getOffsetFromLineColumn c lineIndex (length currentLine)
      in \<lparr>text = text c, columns = columns c, offset = newOffset\<rparr>)"

text \<open>The four \<open>while\<close> loops of \<open>prevWord\<close> and \<open>nextWord\<close>.\<close>

function backWhileSpace :: "jsstring \<Rightarrow> int \<Rightarrow> int" where
  "backWhileSpace t n =
     (if n > 0 \<and> testSpace (charAt t (n - 1)) then backWhileSpace t (n - 1) else n)"
  by pat_completeness auto
termination
  by (relation "measure (\<lambda>(t, n). nat n)") auto

function backWhileWord :: "jsstring \<Rightarrow> int \<Rightarrow> int" where
  "backWhileWord t n =
     (if n > 0 \<and> \<not> testSpace (charAt t (n - 1)) then backWhileWord t (n - 1) else n)"
  by pat_completeness auto
termination
  by (relation "measure (\<lambda>(t, n). nat n)") auto

function fwdWhileWord :: "jsstring \<Rightarrow> int \<Rightarrow> int" where
  "fwdWhileWord t n =
     (if n < int (length t) \<and> \<not> testSpace (charAt t n) then fwdWhileWord t (n + 1) else n)"
  by pat_completeness auto
termination
  by (relation "measure (\<lambda>(t, n). nat (int (length t) - n))") auto

function fwdWhileSpace :: "jsstring \<Rightarrow> int \<Rightarrow> int" where
  "fwdWhileSpace t n =
     (if n < int (length t) \<and> testSpace (charAt t n) then fwdWhileSpace t (n + 1) else n)"
  by pat_completeness auto
termination
  by (relation "measure (\<lambda>(t, n). nat (int (length t) - n))") auto

declare backWhileSpace.simps [simp del] backWhileWord.simps [simp del]
  fwdWhileWord.simps [simp del] fwdWhileSpace.simps [simp del]

definition prevWord :: "Cursor \<Rightarrow> Cursor" where
  "prevWord c =
     \<lparr>text = text c, columns = columns c,
      offset = backWhileWord (text c) (backWhileSpace (text c) (offset c))\<rparr>"

definition nextWord :: "Cursor \<Rightarrow> Cursor" where
  "nextWord c =
     \<lparr>text = text c, columns = columns c,
      offset = fwdWhileSpace (text c) (fwdWhileWord (text c) (offset c))\<rparr>"

definition insertStr :: "Cursor \<Rightarrow> jsstring \<Rightarrow> Cursor" where
  "insertStr c str =
     (let newText = slice2 (text c) 0 (offset c) @ str @ slice1 (text c) (offset c);
          newOffset = offset c + int (length str)
      in \<lparr>text = newText, columns = columns c, offset = newOffset\<rparr>)"

definition backspace :: "Cursor \<Rightarrow> Cursor" where
  "backspace c =
     (if offset c = 0 then c
      else let newText = slice2 (text c) 0 (offset c - 1) @ slice1 (text c) (offset c);
               newOffset = offset c - 1
           in \<lparr>text = newText, columns = columns c, offset = newOffset\<rparr>)"

definition del :: "Cursor \<Rightarrow> Cursor" where
  "del c =
     (if offset c \<ge> int (length (text c)) then c
      else let newText = slice2 (text c) 0 (offset c) @ slice1 (text c) (offset c + 1)
           in \<lparr>text = newText, columns = columns c, offset = offset c\<rparr>)"

definition deleteToLineStart :: "Cursor \<Rightarrow> Cursor" where
  "deleteToLineStart c =
     (let (lineIndex, columnIndex) = getLineColumn c;
          lineStartOffset = getOffsetFromLineColumn c lineIndex 0;
          newText = slice2 (text c) 0 lineStartOffset @ slice1 (text c) (offset c)
      in \<lparr>text = newText, columns = columns c, offset = lineStartOffset\<rparr>)"

definition deleteToLineEnd :: "Cursor \<Rightarrow> Cursor" where
  "deleteToLineEnd c =
     (let lines = split_nl (text c);
          (lineIndex, columnIndex) = getLineColumn c;
          currentLine = lineAt lines lineIndex;
          lineEndOffset = getOffsetFromLineColumn c lineIndex (length currentLine);
          newText = slice2 (text c) 0 (offset c) @ slice1 (text c) lineEndOffset
      in \<lparr>text = newText, columns = columns c, offset = offset c\<rparr>)"

definition deleteWordBefore :: "Cursor \<Rightarrow> Cursor" where
  "deleteWordBefore c =
     (let prevWordCursor = prevWord c;
          newText = slice2 (text c) 0 (offset prevWordCursor) @ slice1 (text c) (offset c)
      in \<lparr>text = newText, columns = columns c, offset = offset prevWordCursor\<rparr>)"

definition deleteWordAfter :: "Cursor \<Rightarrow> Cursor" where
  "deleteWordAfter c =
     (let nextWordCursor = nextWord c;
          newText = slice2 (text c) 0 (offset c) @ slice1 (text c) (offset nextWordCursor)
      in \<lparr>text = newText, columns = columns c, offset = offset c\<rparr>)"

text \<open>
  \<open>render(cursorChar, mask?, invert?)\<close>. An absent argument is \<open>None\<close>; an empty
  string is falsy. \<open>chalk.inverse\<close> belongs to a library, so it is a parameter.
\<close>

definition render ::
  "(jsstring \<Rightarrow> jsstring) \<Rightarrow> Cursor \<Rightarrow> jsstring \<Rightarrow> jsstring option \<Rightarrow>
   (jsstring \<Rightarrow> jsstring) option \<Rightarrow> jsstring" where
  "render chalk_inverse c cursorChar maskStr invert =
     (let displayText =
            (case maskStr of
               None \<Rightarrow> text c
             | Some m \<Rightarrow> if m \<noteq> [] then repeat m (length (text c)) else text c)
      in if cursorChar \<noteq> [] \<and> offset c \<le> int (length displayText)
         then let before = slice2 displayText 0 (offset c);
                  after = slice1 displayText (offset c);
                  cur = (case invert of Some f \<Rightarrow> f cursorChar | None \<Rightarrow> chalk_inverse cursorChar)
              in before @ cur @ after
         else displayText)"

section \<open>The double-press hook (\<open>useDoublePress\<close>)\<close>

text \<open>
  The hook keeps two references: the time of the last press, and the pending timer. The
  timer is modelled by its deadline; \<open>None\<close> is the \<open>null\<close> reference. The three
  callbacks are the hook's parameters, so a call returns the list of callbacks it ran,
  in order. Times are what \<open>Date.now()\<close> returns: integers, in milliseconds.
\<close>

record DoublePress =
  lastPressTime :: int
  timeoutRef :: "int option"

datatype Callback = ShowMessage bool | OnDoublePress | OnSinglePress

definition initialDoublePress :: DoublePress where
  "initialDoublePress = \<lparr>lastPressTime = 0, timeoutRef = None\<rparr>"

definition defaultTimeout :: int where
  "defaultTimeout = 800"

text \<open>The returned callback, run at the time \<open>now\<close>.\<close>

definition press :: "int \<Rightarrow> int \<Rightarrow> DoublePress \<Rightarrow> DoublePress \<times> Callback list" where
  "press timeout now st =
     (let timeBetweenPresses = now - lastPressTime st;
          st1 = st\<lparr>timeoutRef := None\<rparr>
      in if timeBetweenPresses < timeout
         then (st1\<lparr>lastPressTime := 0\<rparr>, [ShowMessage False, OnDoublePress])
         else (st1\<lparr>lastPressTime := now, timeoutRef := Some (now + timeout)\<rparr>,
               [ShowMessage True]))"

text \<open>The body of the timer, which runs only when the timer was not cleared.\<close>

definition timerFires :: "DoublePress \<Rightarrow> DoublePress \<times> Callback list" where
  "timerFires st =
     (case timeoutRef st of
        None \<Rightarrow> (st, [])
      | Some deadline \<Rightarrow> (st\<lparr>timeoutRef := None\<rparr>, [ShowMessage False, OnSinglePress]))"

text \<open>
  A timeline: presses at the given clock values, then silence. A pending timer whose
  deadline has come runs before the press is handled, and after the last press.
\<close>

definition elapse :: "int \<Rightarrow> DoublePress \<Rightarrow> DoublePress \<times> Callback list" where
  "elapse now st =
     (case timeoutRef st of
        None \<Rightarrow> (st, [])
      | Some deadline \<Rightarrow> if deadline \<le> now then timerFires st else (st, []))"

fun pressesAt :: "int \<Rightarrow> DoublePress \<Rightarrow> int list \<Rightarrow> Callback list" where
  "pressesAt timeout st [] = snd (timerFires st)"
| "pressesAt timeout st (now # rest) =
     (let (st1, out1) = elapse now st;
          (st2, out2) = press timeout now st1
      in out1 @ out2 @ pressesAt timeout st2 rest)"

section \<open>The key dispatcher (\<open>useTextInput\<close>)\<close>

text \<open>
  The flags of a key event. Three fields carry a suffix, since \<open>backspace\<close> is also
  a cursor operation.
\<close>

record Key =
  upArrow :: bool
  downArrow :: bool
  leftArrow :: bool
  rightArrow :: bool
  pageDown :: bool
  pageUp :: bool
  returnKey :: bool
  escape :: bool
  ctrl :: bool
  shift :: bool
  tab :: bool
  backspaceKey :: bool
  deleteKey :: bool
  meta :: bool

text \<open>The properties of the hook that the input handler reads.\<close>

record Props =
  originalValue :: jsstring
  columnsProp :: int
  externalOffset :: int
  multiline :: bool
  disableCursorMovementForUpDownKeys :: bool

text \<open>
  What a call observes outside the program: the clock, the platform, and what the
  clipboard script returned (\<open>None\<close> when it failed).
\<close>

record Env =
  now :: int
  darwin :: bool
  clipboardPng :: "jsstring option"

text \<open>
  The calls to the host's callbacks, in order. Most callbacks are optional in the
  source (\<open>onExit?.()\<close>); an effect records that the call site ran.
\<close>

datatype Effect =
    OnChange jsstring
  | SetOffset int
  | OnSubmit jsstring
  | OnExit
  | OnExitMessage bool jsstring
  | OnMessage bool "jsstring option"
  | OnHistoryUp
  | OnHistoryDown
  | OnHistoryReset
  | OnImagePaste jsstring
  | OnPaste jsstring

text \<open>The state the hook keeps between calls: three double-press sites and one timer.\<close>

record InputState =
  ctrlC :: DoublePress
  escapeDouble :: DoublePress
  emptyCtrlD :: DoublePress
  imagePasteErrorTimeout :: "int option"

definition initialInputState :: InputState where
  "initialInputState =
     \<lparr>ctrlC = initialDoublePress, escapeDouble = initialDoublePress,
      emptyCtrlD = initialDoublePress, imagePasteErrorTimeout = None\<rparr>"

definition CLIPBOARD_ERROR_MESSAGE :: jsstring where
  "CLIPBOARD_ERROR_MESSAGE =
     js (''No image data in clipboard. Please copy an image first '' @
         ''(e.g., use Cmd+Shift+4 to screenshot to clipboard)'')"

definition getImageFromClipboard :: "Env \<Rightarrow> jsstring option" where
  "getImageFromClipboard env = (if \<not> darwin env then None else clipboardPng env)"

definition maybeClearImagePasteErrorTimeout :: "InputState \<Rightarrow> InputState \<times> Effect list" where
  "maybeClearImagePasteErrorTimeout st =
     (case imagePasteErrorTimeout st of
        None \<Rightarrow> (st, [])
      | Some deadline \<Rightarrow> (st\<lparr>imagePasteErrorTimeout := None\<rparr>, [OnMessage False None]))"

text \<open>Running the callbacks that a press returned, with the handlers of one site.\<close>

fun runCallbacks ::
  "(Callback \<Rightarrow> InputState \<Rightarrow> InputState \<times> Effect list) \<Rightarrow> Callback list \<Rightarrow>
   InputState \<Rightarrow> InputState \<times> Effect list" where
  "runCallbacks h [] st = (st, [])"
| "runCallbacks h (cb # cbs) st =
     (let (st1, es1) = h cb st;
          (st2, es2) = runCallbacks h cbs st1
      in (st2, es1 @ es2))"

fun ctrlCCallbacks :: "Props \<Rightarrow> Callback \<Rightarrow> InputState \<Rightarrow> InputState \<times> Effect list" where
  "ctrlCCallbacks p (ShowMessage show) st =
     (let (st1, es) = maybeClearImagePasteErrorTimeout st
      in (st1, es @ [OnExitMessage show (js ''Ctrl-C'')]))"
| "ctrlCCallbacks p OnDoublePress st = (st, [OnExit])"
| "ctrlCCallbacks p OnSinglePress st =
     (st, if originalValue p \<noteq> [] then [OnChange [], SetOffset 0, OnHistoryReset] else [])"

fun escapeCallbacks :: "Props \<Rightarrow> Callback \<Rightarrow> InputState \<Rightarrow> InputState \<times> Effect list" where
  "escapeCallbacks p (ShowMessage show) st =
     (let (st1, es) = maybeClearImagePasteErrorTimeout st
      in (st1, es @ [OnMessage (originalValue p \<noteq> [] \<and> show)
                        (Some (js ''Press Escape again to clear''))]))"
| "escapeCallbacks p OnDoublePress st =
     (st, if originalValue p \<noteq> [] then [OnChange [], SetOffset 0] else [])"
| "escapeCallbacks p OnSinglePress st = (st, [])"

fun emptyCtrlDCallbacks :: "Callback \<Rightarrow> InputState \<Rightarrow> InputState \<times> Effect list" where
  "emptyCtrlDCallbacks (ShowMessage show) st = (st, [OnExitMessage show (js ''Ctrl-D'')])"
| "emptyCtrlDCallbacks OnDoublePress st = (st, [OnExit])"
| "emptyCtrlDCallbacks OnSinglePress st = (st, [])"

definition handleCtrlC :: "Env \<Rightarrow> Props \<Rightarrow> InputState \<Rightarrow> InputState \<times> Effect list" where
  "handleCtrlC env p st =
     (let (dp, cbs) = press defaultTimeout (now env) (ctrlC st)
      in runCallbacks (ctrlCCallbacks p) cbs (st\<lparr>ctrlC := dp\<rparr>))"

definition handleEscapeDouble :: "Env \<Rightarrow> Props \<Rightarrow> InputState \<Rightarrow> InputState \<times> Effect list" where
  "handleEscapeDouble env p st =
     (let (dp, cbs) = press defaultTimeout (now env) (escapeDouble st)
      in runCallbacks (escapeCallbacks p) cbs (st\<lparr>escapeDouble := dp\<rparr>))"

definition handleEmptyCtrlD :: "Env \<Rightarrow> InputState \<Rightarrow> InputState \<times> Effect list" where
  "handleEmptyCtrlD env st =
     (let (dp, cbs) = press defaultTimeout (now env) (emptyCtrlD st)
      in runCallbacks emptyCtrlDCallbacks cbs (st\<lparr>emptyCtrlD := dp\<rparr>))"

text \<open>
  A handler returns the new state, the effects, and \<open>MaybeCursor\<close>: \<open>None\<close> is
  \<open>undefined\<close>.
\<close>

type_synonym handled = "InputState \<times> Effect list \<times> Cursor option"

definition theCursor :: "Props \<Rightarrow> Cursor" where
  "theCursor p = fromText (originalValue p) (columnsProp p) (externalOffset p)"

definition clear :: "Props \<Rightarrow> InputState \<Rightarrow> handled" where
  "clear p st = (st, [SetOffset 0], Some (fromText [] (columnsProp p) 0))"

definition handleCtrlD :: "Env \<Rightarrow> Props \<Rightarrow> InputState \<Rightarrow> handled" where
  "handleCtrlD env p st =
     (let cursor = theCursor p;
          (st1, es1) = maybeClearImagePasteErrorTimeout st
      in if text cursor = []
         then let (st2, es2) = handleEmptyCtrlD env st1 in (st2, es1 @ es2, Some cursor)
         else (st1, es1, Some (del cursor)))"

definition tryImagePaste :: "Env \<Rightarrow> Props \<Rightarrow> InputState \<Rightarrow> handled" where
  "tryImagePaste env p st =
     (let cursor = theCursor p
      in case getImageFromClipboard env of
           None \<Rightarrow>
             if \<not> darwin env then (st, [], Some cursor)
             else let (st1, es1) = maybeClearImagePasteErrorTimeout st
                  in (st1\<lparr>imagePasteErrorTimeout := Some (now env + 4000)\<rparr>,
                      [OnMessage True (Some CLIPBOARD_ERROR_MESSAGE)] @ es1, Some cursor)
         | Some base64Image \<Rightarrow> (st, [OnImagePaste base64Image], Some cursor))"

definition upOrHistoryUp :: "Props \<Rightarrow> InputState \<Rightarrow> handled" where
  "upOrHistoryUp p st =
     (let cursor = theCursor p
      in if disableCursorMovementForUpDownKeys p then (st, [OnHistoryUp], Some cursor)
         else let cursorUp = up cursor
              in (st, if equals cursorUp cursor then [OnHistoryUp] else [], Some cursorUp))"

definition downOrHistoryDown :: "Props \<Rightarrow> InputState \<Rightarrow> handled" where
  "downOrHistoryDown p st =
     (let cursor = theCursor p
      in if disableCursorMovementForUpDownKeys p then (st, [OnHistoryDown], Some cursor)
         else let cursorDown = down cursor
              in (st, if equals cursorDown cursor then [OnHistoryDown] else [], Some cursorDown))"

text \<open>The two tables built by \<open>mapInput\<close>: an input that is no key of the table gives \<open>undefined\<close>.\<close>

definition handleCtrl :: "Env \<Rightarrow> Props \<Rightarrow> InputState \<Rightarrow> jsstring \<Rightarrow> handled" where
  "handleCtrl env p st input =
     (let cursor = theCursor p
      in if input = js ''a'' then (st, [], Some (startOfLine cursor))
         else if input = js ''b'' then (st, [], Some (left cursor))
         else if input = js ''c''
           then let (st1, es) = handleCtrlC env p st in (st1, es, Some cursor)
         else if input = js ''d'' then handleCtrlD env p st
         else if input = js ''e'' then (st, [], Some (endOfLine cursor))
         else if input = js ''f'' then (st, [], Some (right cursor))
         else if input = js ''h''
           then let (st1, es) = maybeClearImagePasteErrorTimeout st
                in (st1, es, Some (backspace cursor))
         else if input = js ''k'' then (st, [], Some (deleteToLineEnd cursor))
         else if input = js ''l'' then clear p st
         else if input = js ''n'' then downOrHistoryDown p st
         else if input = js ''p'' then upOrHistoryUp p st
         else if input = js ''u'' then (st, [], Some (deleteToLineStart cursor))
         else if input = js ''v'' then tryImagePaste env p st
         else if input = js ''w'' then (st, [], Some (deleteWordBefore cursor))
         else (st, [], None))"

definition handleMeta :: "Props \<Rightarrow> InputState \<Rightarrow> jsstring \<Rightarrow> handled" where
  "handleMeta p st input =
     (let cursor = theCursor p
      in if input = js ''b'' then (st, [], Some (prevWord cursor))
         else if input = js ''f'' then (st, [], Some (nextWord cursor))
         else if input = js ''d'' then (st, [], Some (deleteWordAfter cursor))
         else (st, [], None))"

definition handleEnter :: "Props \<Rightarrow> InputState \<Rightarrow> Key \<Rightarrow> handled" where
  "handleEnter p st key =
     (let cursor = theCursor p
      in if multiline p \<and> offset cursor > 0 \<and> charAt (text cursor) (offset cursor - 1) = [92]
         then (st, [], Some (insertStr (backspace cursor) [newline]))
         else if meta key then (st, [], Some (insertStr cursor [newline]))
         else (st, [OnSubmit (originalValue p)], None))"

text \<open>The literal backspace characters: \<open>'\b'\<close> and \<open>'\x08'\<close> are the same string.\<close>

definition isBackspaceInput :: "jsstring \<Rightarrow> bool" where
  "isBackspaceInput input \<longleftrightarrow> input = [8] \<or> input = [127] \<or> input = [8]"

text \<open>The fallback of \<open>mapKey\<close> on the literal input.\<close>

definition handleLiteral :: "Props \<Rightarrow> InputState \<Rightarrow> jsstring \<Rightarrow> handled" where
  "handleLiteral p st input =
     (let cursor = theCursor p
      in if input = [27, 91, 72] \<or> input = [27, 91, 49, 126]
           then (st, [], Some (startOfLine cursor))
         else if input = [27, 91, 70] \<or> input = [27, 91, 52, 126]
           then (st, [], Some (endOfLine cursor))
         else if isBackspaceInput input
           then let (st1, es) = maybeClearImagePasteErrorTimeout st
                in (st1, es, Some (backspace cursor))
         else (st, [], Some (insertStr cursor (map (\<lambda>c. if c = 13 then newline else c) input))))"

text \<open>\<open>mapKey(key)(input)\<close>: the first case of the \<open>switch (true)\<close> that holds.\<close>

definition mapKey :: "Env \<Rightarrow> Props \<Rightarrow> InputState \<Rightarrow> Key \<Rightarrow> jsstring \<Rightarrow> handled" where
  "mapKey env p st key input =
     (let cursor = theCursor p
      in if backspaceKey key \<or> deleteKey key
           then let (st1, es) = maybeClearImagePasteErrorTimeout st
                in (st1, es, Some (backspace cursor))
         else if returnKey key then handleEnter p st key
         else if escape key
           then let (st1, es) = handleEscapeDouble env p st in (st1, es, Some cursor)
         else if leftArrow key \<and> (ctrl key \<or> meta key) then (st, [], Some (prevWord cursor))
         else if rightArrow key \<and> (ctrl key \<or> meta key) then (st, [], Some (nextWord cursor))
         else if ctrl key then handleCtrl env p st input
         else if pageDown key then (st, [], Some (endOfLine cursor))
         else if pageUp key then (st, [], Some (startOfLine cursor))
         else if meta key then handleMeta p st input
         else if tab key then (st, [], None)
         else if upArrow key then upOrHistoryUp p st
         else if downArrow key then downOrHistoryDown p st
         else if leftArrow key then (st, [], Some (left cursor))
         else if rightArrow key then (st, [], Some (right cursor))
         else handleLiteral p st input)"

text \<open>The two-level change check that ends \<open>onInput\<close>.\<close>

definition commit :: "Cursor \<Rightarrow> Cursor \<Rightarrow> Effect list" where
  "commit cursor nextCursor =
     (if \<not> equals cursor nextCursor
      then SetOffset (offset nextCursor) #
           (if text cursor \<noteq> text nextCursor then [OnChange (text nextCursor)] else [])
      else [])"

definition signalsBackspace :: "jsstring \<Rightarrow> Key \<Rightarrow> bool" where
  "signalsBackspace input key \<longleftrightarrow> backspaceKey key \<or> deleteKey key \<or> isBackspaceInput input"

definition onInput :: "Env \<Rightarrow> Props \<Rightarrow> InputState \<Rightarrow> jsstring \<Rightarrow> Key \<Rightarrow> InputState \<times> Effect list" where
  "onInput env p st input key =
     (let cursor = theCursor p
      in if signalsBackspace input key then (st, commit cursor (backspace cursor))
         else case mapKey env p st key input of
                (st1, es, None) \<Rightarrow> (st1, es)
              | (st1, es, Some nextCursor) \<Rightarrow> (st1, es @ commit cursor nextCursor))"

section \<open>The paste detection of the component (\<open>TextInput\<close>)\<close>

text \<open>
  The component's own state, with the timer again as its deadline. A state update is
  taken to be in effect when the next chunk arrives.
\<close>

record PasteState =
  chunks :: "jsstring list"
  timeoutId :: "int option"
  totalLength :: nat

definition emptyPasteState :: PasteState where
  "emptyPasteState = \<lparr>chunks = [], timeoutId = None, totalLength = 0\<rparr>"

record TextInputState =
  pasteState :: PasteState
  inputState :: InputState

definition startsWithQuoteSlash :: "jsstring \<Rightarrow> bool" where
  "startsWithQuoteSlash input \<longleftrightarrow> take 2 input = [39, 47]"

text \<open>The test that sends a chunk to the buffer.\<close>

definition looksLikePaste :: "PasteState \<Rightarrow> jsstring \<Rightarrow> bool" where
  "looksLikePaste ps input \<longleftrightarrow>
     length input > 20 \<or> timeoutId ps \<noteq> None \<or> startsWithQuoteSlash input"

definition wrappedOnInput ::
  "Env \<Rightarrow> Props \<Rightarrow> TextInputState \<Rightarrow> jsstring \<Rightarrow> Key \<Rightarrow> TextInputState \<times> Effect list" where
  "wrappedOnInput env p ts input key =
     (if signalsBackspace input key
      then let (st1, es) = onInput env p (inputState ts) input (key\<lparr>backspaceKey := True\<rparr>)
           in (ts\<lparr>inputState := st1\<rparr>, es)
      else if looksLikePaste (pasteState ts) input
      then (ts\<lparr>pasteState :=
                 \<lparr>chunks = chunks (pasteState ts) @ [input],
                  timeoutId = Some (now env + 50),
                  totalLength = sum_list (map length (chunks (pasteState ts))) + length input\<rparr>\<rparr>,
            [])
      else let (st1, es) = onInput env p (inputState ts) input key
           in (ts\<lparr>inputState := st1\<rparr>, es))"

text \<open>The body of the 50 ms timer set by \<open>resetPasteTimeout\<close>.\<close>

definition pasteTimerFires :: "TextInputState \<Rightarrow> TextInputState \<times> Effect list" where
  "pasteTimerFires ts =
     (case timeoutId (pasteState ts) of
        None \<Rightarrow> (ts, [])
      | Some deadline \<Rightarrow>
          (ts\<lparr>pasteState := emptyPasteState\<rparr>, [OnPaste (concat (chunks (pasteState ts)))]))"

text \<open>Chunks arriving one after the other, each at its own time.\<close>

fun chunksArrive ::
  "Props \<Rightarrow> TextInputState \<Rightarrow> (Env \<times> jsstring \<times> Key) list \<Rightarrow> TextInputState \<times> Effect list" where
  "chunksArrive p ts [] = (ts, [])"
| "chunksArrive p ts ((env, input, key) # rest) =
     (let (ts1, es1) = wrappedOnInput env p ts input key;
          (ts2, es2) = chunksArrive p ts1 rest
      in (ts2, es1 @ es2))"

section \<open>Sequences of cursor operations\<close>

text \<open>The public operations as data, so that a reachable cursor is a run of them.\<close>

datatype CursorOp =
    OpLeft | OpRight | OpUp | OpDown | OpStartOfLine | OpEndOfLine | OpPrevWord | OpNextWord
  | OpInsert jsstring | OpBackspace | OpDel | OpDeleteToLineStart | OpDeleteToLineEnd
  | OpDeleteWordBefore | OpDeleteWordAfter

fun applyOp :: "Cursor \<Rightarrow> CursorOp \<Rightarrow> Cursor" where
  "applyOp c OpLeft = left c"
| "applyOp c OpRight = right c"
| "applyOp c OpUp = up c"
| "applyOp c OpDown = down c"
| "applyOp c OpStartOfLine = startOfLine c"
| "applyOp c OpEndOfLine = endOfLine c"
| "applyOp c OpPrevWord = prevWord c"
| "applyOp c OpNextWord = nextWord c"
| "applyOp c (OpInsert s) = insertStr c s"
| "applyOp c OpBackspace = backspace c"
| "applyOp c OpDel = del c"
| "applyOp c OpDeleteToLineStart = deleteToLineStart c"
| "applyOp c OpDeleteToLineEnd = deleteToLineEnd c"
| "applyOp c OpDeleteWordBefore = deleteWordBefore c"
| "applyOp c OpDeleteWordAfter = deleteWordAfter c"

text \<open>The invariant of the data model: the offset is a position inside the text.\<close>

definition valid :: "Cursor \<Rightarrow> bool" where
  "valid c \<longleftrightarrow> 0 \<le> offset c \<and> offset c \<le> int (length (text c))"

section \<open>Notions used in the statements\<close>

text \<open>
  The offset lies on the first line when no line break comes before it, and on the last
  line when none comes at or after it.
\<close>

definition onFirstLine :: "Cursor \<Rightarrow> bool" where
  "onFirstLine c \<longleftrightarrow> newline \<notin> set (take (nat (offset c)) (text c))"

definition onLastLine :: "Cursor \<Rightarrow> bool" where
  "onLastLine c \<longleftrightarrow> newline \<notin> set (drop (nat (offset c)) (text c))"

text \<open>
  A key that none of the earlier cases of the dispatcher takes: no backspace signal, no
  return, escape, control, meta, page or tab flag.
\<close>

definition plainKey :: "jsstring \<Rightarrow> Key \<Rightarrow> bool" where
  "plainKey input key \<longleftrightarrow>
     \<not> signalsBackspace input key \<and> \<not> returnKey key \<and> \<not> escape key \<and> \<not> ctrl key \<and>
     \<not> meta key \<and> \<not> pageDown key \<and> \<not> pageUp key \<and> \<not> tab key"

text \<open>The state after one more chunk has joined the buffer at the time of \<open>env\<close>.\<close>

definition buffered :: "Env \<Rightarrow> TextInputState \<Rightarrow> jsstring \<Rightarrow> TextInputState" where
  "buffered env ts input =
     ts\<lparr>pasteState :=
          \<lparr>chunks = chunks (pasteState ts) @ [input],
           timeoutId = Some (now env + 50),
           totalLength = sum_list (map length (chunks (pasteState ts))) + length input\<rparr>\<rparr>"

section \<open>Example inputs\<close>

definition noKey :: Key where
  "noKey = \<lparr>upArrow = False, downArrow = False, leftArrow = False, rightArrow = False,
            pageDown = False, pageUp = False, returnKey = False, escape = False,
            ctrl = False, shift = False, tab = False, backspaceKey = False,
            deleteKey = False, meta = False\<rparr>"

definition twoLines :: Props where
  "twoLines = \<lparr>originalValue = js ''ab'' @ [newline] @ js ''cd'', columnsProp = 80,
     externalOffset = 1, multiline = False, disableCursorMovementForUpDownKeys = False\<rparr>"

definition openBuffer :: TextInputState where
  "openBuffer = \<lparr>pasteState = \<lparr>chunks = [js ''pasted''], timeoutId = Some 1050, totalLength = 6\<rparr>,
                 inputState = initialInputState\<rparr>"

definition idle :: TextInputState where
  "idle = \<lparr>pasteState = emptyPasteState, inputState = initialInputState\<rparr>"

definition atTime :: "int \<Rightarrow> Env" where
  "atTime t = \<lparr>now = t, darwin = True, clipboardPng = None\<rparr>"

definition longChunk :: jsstring where
  "longChunk = js ''abcdefghijklmnopqrstuvwxy''"

section \<open>Properties of the cursor\<close>

subsection \<open>Slices, line offsets and word scans\<close>

lemma slice2_take: "0 \<le> n \<Longrightarrow> slice2 s 0 n = take (nat n) s"
  by (auto simp: slice2_def Let_def min_def)

lemma slice1_drop: "0 \<le> n \<Longrightarrow> slice1 s n = drop (nat n) s"
  by (auto simp: slice1_def slice2_def Let_def min_def)

lemma getOffset_bounds:
  "0 \<le> getOffsetFromLineColumn c l k \<and> getOffsetFromLineColumn c l k \<le> int (length (text c))"
  by (simp add: getOffsetFromLineColumn_def Let_def)

lemma backWhileSpace_le: "backWhileSpace t n \<le> n"
  by (induction t n rule: backWhileSpace.induct) (subst backWhileSpace.simps, auto)

lemma backWhileSpace_ge: "0 \<le> n \<Longrightarrow> 0 \<le> backWhileSpace t n"
  by (induction t n rule: backWhileSpace.induct) (subst backWhileSpace.simps, auto)

lemma backWhileWord_le: "backWhileWord t n \<le> n"
  by (induction t n rule: backWhileWord.induct) (subst backWhileWord.simps, auto)

lemma backWhileWord_ge: "0 \<le> n \<Longrightarrow> 0 \<le> backWhileWord t n"
  by (induction t n rule: backWhileWord.induct) (subst backWhileWord.simps, auto)

lemma fwdWhileWord_ge: "n \<le> fwdWhileWord t n"
  by (induction t n rule: fwdWhileWord.induct) (subst fwdWhileWord.simps, auto)

lemma fwdWhileWord_le: "n \<le> int (length t) \<Longrightarrow> fwdWhileWord t n \<le> int (length t)"
  by (induction t n rule: fwdWhileWord.induct) (subst fwdWhileWord.simps, auto)

lemma fwdWhileSpace_ge: "n \<le> fwdWhileSpace t n"
  by (induction t n rule: fwdWhileSpace.induct) (subst fwdWhileSpace.simps, auto)

lemma fwdWhileSpace_le: "n \<le> int (length t) \<Longrightarrow> fwdWhileSpace t n \<le> int (length t)"
  by (induction t n rule: fwdWhileSpace.induct) (subst fwdWhileSpace.simps, auto)

lemma prevWord_offset_le: "offset (prevWord c) \<le> offset c"
  using backWhileWord_le [of "text c" "backWhileSpace (text c) (offset c)"]
    backWhileSpace_le [of "text c" "offset c"]
  by (simp add: prevWord_def)

lemma prevWord_offset_ge: "0 \<le> offset c \<Longrightarrow> 0 \<le> offset (prevWord c)"
  by (simp add: prevWord_def backWhileWord_ge backWhileSpace_ge)

lemma nextWord_offset_ge: "offset c \<le> offset (nextWord c)"
  using fwdWhileSpace_ge [of "fwdWhileWord (text c) (offset c)" "text c"]
    fwdWhileWord_ge [of "offset c" "text c"]
  by (simp add: nextWord_def)

lemma nextWord_offset_le:
  "offset c \<le> int (length (text c)) \<Longrightarrow> offset (nextWord c) \<le> int (length (text c))"
  by (simp add: nextWord_def fwdWhileWord_le fwdWhileSpace_le)

lemma valid_fromText: "valid (fromText t cols off)"
  by (simp add: valid_def fromText_def)

lemma valid_left: "valid c \<Longrightarrow> valid (left c)"
  by (auto simp: valid_def left_def)

lemma valid_right: "valid c \<Longrightarrow> valid (right c)"
  by (auto simp: valid_def right_def)

lemma valid_up: "valid c \<Longrightarrow> valid (up c)"
  using getOffset_bounds by (auto simp: valid_def up_def Let_def split: prod.splits)

lemma valid_down: "valid c \<Longrightarrow> valid (down c)"
  using getOffset_bounds by (auto simp: valid_def down_def Let_def split: prod.splits)

lemma valid_startOfLine: "valid (startOfLine c)"
  using getOffset_bounds by (auto simp: valid_def startOfLine_def Let_def split: prod.splits)

lemma valid_endOfLine: "valid (endOfLine c)"
  using getOffset_bounds by (auto simp: valid_def endOfLine_def Let_def split: prod.splits)

lemma valid_prevWord: "valid c \<Longrightarrow> valid (prevWord c)"
  using prevWord_offset_le [of c] prevWord_offset_ge [of c]
  by (simp add: valid_def) (simp add: prevWord_def)

lemma valid_nextWord: "valid c \<Longrightarrow> valid (nextWord c)"
  using nextWord_offset_le [of c] nextWord_offset_ge [of c]
  by (simp add: valid_def) (simp add: nextWord_def)

lemma valid_insertStr: "valid c \<Longrightarrow> valid (insertStr c s)"
  by (auto simp: valid_def insertStr_def Let_def slice2_take slice1_drop)

lemma valid_backspace: "valid c \<Longrightarrow> valid (backspace c)"
  by (auto simp: valid_def backspace_def Let_def slice2_take slice1_drop)

lemma valid_del: "valid c \<Longrightarrow> valid (del c)"
  by (auto simp: valid_def del_def Let_def slice2_take slice1_drop)

lemma length_splice:
  "0 \<le> p \<Longrightarrow> p \<le> int (length s) \<Longrightarrow> 0 \<le> q \<Longrightarrow> q \<le> int (length s) \<Longrightarrow>
   int (length (slice2 s 0 p @ slice1 s q)) = p + (int (length s) - q)"
  by (simp add: slice2_take slice1_drop min_def) linarith

lemma valid_deleteToLineStart: "valid c \<Longrightarrow> valid (deleteToLineStart c)"
proof -
  assume v: "valid c"
  obtain l k where lk: "getLineColumn c = (l, k)" by (cases "getLineColumn c")
  let ?p = "getOffsetFromLineColumn c l 0"
  have b: "0 \<le> ?p" "?p \<le> int (length (text c))" using getOffset_bounds [of c l 0] by simp_all
  have "int (length (slice2 (text c) 0 ?p @ slice1 (text c) (offset c)))
        = ?p + (int (length (text c)) - offset c)"
    using v b by (intro length_splice) (simp_all add: valid_def)
  then show ?thesis using v b lk
    by (simp add: valid_def deleteToLineStart_def Let_def del: length_append)
qed

lemma valid_deleteToLineEnd: "valid c \<Longrightarrow> valid (deleteToLineEnd c)"
proof -
  assume v: "valid c"
  obtain l k where lk: "getLineColumn c = (l, k)" by (cases "getLineColumn c")
  let ?q = "getOffsetFromLineColumn c l (length (lineAt (split_nl (text c)) l))"
  have b: "0 \<le> ?q" "?q \<le> int (length (text c))"
    using getOffset_bounds [of c l "length (lineAt (split_nl (text c)) l)"] by simp_all
  have "int (length (slice2 (text c) 0 (offset c) @ slice1 (text c) ?q))
        = offset c + (int (length (text c)) - ?q)"
    using v b by (intro length_splice) (simp_all add: valid_def)
  then show ?thesis using v b lk
    by (simp add: valid_def deleteToLineEnd_def Let_def del: length_append)
qed

lemma valid_deleteWordBefore: "valid c \<Longrightarrow> valid (deleteWordBefore c)"
  using prevWord_offset_le [of c] prevWord_offset_ge [of c]
  by (auto simp: valid_def deleteWordBefore_def Let_def slice2_take slice1_drop)

lemma valid_deleteWordAfter: "valid c \<Longrightarrow> valid (deleteWordAfter c)"
  using nextWord_offset_le [of c] nextWord_offset_ge [of c]
  by (auto simp: valid_def deleteWordAfter_def Let_def slice2_take slice1_drop)

lemma valid_applyOp: "valid c \<Longrightarrow> valid (applyOp c op)"
  by (cases op)
    (simp_all add: valid_left valid_right valid_up valid_down valid_startOfLine
      valid_endOfLine valid_prevWord valid_nextWord valid_insertStr valid_backspace
      valid_del valid_deleteToLineStart valid_deleteToLineEnd valid_deleteWordBefore
      valid_deleteWordAfter)

lemma valid_foldl: "valid c \<Longrightarrow> valid (foldl applyOp c ops)"
  by (induction ops arbitrary: c) (simp_all add: valid_applyOp)

text \<open>
  Claim C1. Every cursor built by \<open>fromText\<close> (whatever offset it is given) and then
  transformed by any sequence of the fifteen public operations has its offset between
  0 and the length of its text.
\<close>

theorem offset_in_range_reachable:
  "0 \<le> offset (foldl applyOp (fromText t cols off) ops) \<and>
   offset (foldl applyOp (fromText t cols off) ops)
     \<le> int (length (text (foldl applyOp (fromText t cols off) ops)))"
  using valid_foldl [OF valid_fromText, of t cols off ops] by (simp add: valid_def)

subsection \<open>The stored width and the frame of each operation\<close>

lemma getLineColumn_columns: "getLineColumn (c\<lparr>columns := w\<rparr>) = getLineColumn c"
  by (simp add: getLineColumn_def)

lemma getOffset_columns:
  "getOffsetFromLineColumn (c\<lparr>columns := w\<rparr>) l k = getOffsetFromLineColumn c l k"
  by (simp add: getOffsetFromLineColumn_def)

lemma prevWord_columns: "prevWord (c\<lparr>columns := w\<rparr>) = (prevWord c)\<lparr>columns := w\<rparr>"
  by (simp add: prevWord_def)

lemma nextWord_columns: "nextWord (c\<lparr>columns := w\<rparr>) = (nextWord c)\<lparr>columns := w\<rparr>"
  by (simp add: nextWord_def)

lemma applyOp_columns: "applyOp (c\<lparr>columns := w\<rparr>) op = (applyOp c op)\<lparr>columns := w\<rparr>"
  by (cases op)
    (simp_all add: left_def right_def up_def down_def startOfLine_def endOfLine_def
      insertStr_def backspace_def del_def deleteToLineStart_def deleteToLineEnd_def
      deleteWordBefore_def deleteWordAfter_def prevWord_columns nextWord_columns
      getLineColumn_columns getOffset_columns Let_def split: prod.splits)

lemma render_columns:
  "render chalk_inverse (c\<lparr>columns := w\<rparr>) cursorChar maskStr invert = render chalk_inverse c cursorChar maskStr invert"
  by (cases maskStr) (simp_all add: render_def Let_def)

text \<open>
  Claim C5. Two cursors with the same text and offset and different \<open>columns\<close> are
  \<open>c\<close> and \<open>c\<lparr>columns := w\<rparr>\<close>. Every one of the fifteen operations gives on
  them results that differ in the stored \<open>columns\<close> only (so text and offset agree),
  and \<open>render\<close> gives the same display string.
\<close>

theorem columns_never_consulted:
  "applyOp (c\<lparr>columns := w\<rparr>) op = (applyOp c op)\<lparr>columns := w\<rparr> \<and>
   text (applyOp (c\<lparr>columns := w\<rparr>) op) = text (applyOp c op) \<and>
   offset (applyOp (c\<lparr>columns := w\<rparr>) op) = offset (applyOp c op) \<and>
   render chalk_inverse (c\<lparr>columns := w\<rparr>) cursorChar maskStr invert
     = render chalk_inverse c cursorChar maskStr invert"
  by (simp add: applyOp_columns render_columns)

lemma frame_lines:
  "text (up c) = text c" "columns (up c) = columns c"
  "text (down c) = text c" "columns (down c) = columns c"
  "text (startOfLine c) = text c" "columns (startOfLine c) = columns c"
  "text (endOfLine c) = text c" "columns (endOfLine c) = columns c"
  by (simp_all add: up_def down_def startOfLine_def endOfLine_def Let_def split: prod.splits)

lemma frame_moves:
  "text (left c) = text c" "columns (left c) = columns c"
  "text (right c) = text c" "columns (right c) = columns c"
  "text (prevWord c) = text c" "columns (prevWord c) = columns c"
  "text (nextWord c) = text c" "columns (nextWord c) = columns c"
  by (simp_all add: left_def right_def prevWord_def nextWord_def)

lemma frame_edits:
  "columns (insertStr c s) = columns c"
  "columns (backspace c) = columns c"
  "columns (del c) = columns c"
  "columns (deleteToLineStart c) = columns c"
  "columns (deleteToLineEnd c) = columns c"
  "columns (deleteWordBefore c) = columns c"
  "columns (deleteWordAfter c) = columns c"
  by (simp_all add: insertStr_def backspace_def del_def deleteToLineStart_def
      deleteToLineEnd_def deleteWordBefore_def deleteWordAfter_def Let_def split: prod.splits)

text \<open>
  Claim C9. Each of the eight navigation operations returns a cursor with the text and
  the \<open>columns\<close> of its input, and each of the seven edit operations returns a cursor
  with the \<open>columns\<close> of its input.
\<close>

theorem operations_frame:
  "(text (left c) = text c \<and> columns (left c) = columns c) \<and>
   (text (right c) = text c \<and> columns (right c) = columns c) \<and>
   (text (up c) = text c \<and> columns (up c) = columns c) \<and>
   (text (down c) = text c \<and> columns (down c) = columns c) \<and>
   (text (startOfLine c) = text c \<and> columns (startOfLine c) = columns c) \<and>
   (text (endOfLine c) = text c \<and> columns (endOfLine c) = columns c) \<and>
   (text (prevWord c) = text c \<and> columns (prevWord c) = columns c) \<and>
   (text (nextWord c) = text c \<and> columns (nextWord c) = columns c) \<and>
   columns (insertStr c s) = columns c \<and>
   columns (backspace c) = columns c \<and>
   columns (del c) = columns c \<and>
   columns (deleteToLineStart c) = columns c \<and>
   columns (deleteToLineEnd c) = columns c \<and>
   columns (deleteWordBefore c) = columns c \<and>
   columns (deleteWordAfter c) = columns c"
  by (simp only: frame_lines frame_moves frame_edits simp_thms)

subsection \<open>Inserting and erasing\<close>

lemma slice2_take_int: "slice2 s 0 (int n) = take n s"
  by (simp add: slice2_take)

lemma slice1_drop_int: "slice1 s (int n) = drop n s"
  by (simp add: slice1_drop)

lemma backspace_snoc:
  "backspace \<lparr>text = a @ s @ [x] @ b, columns = w, offset = int (length a + length s + 1)\<rparr>
   = \<lparr>text = a @ s @ b, columns = w, offset = int (length a + length s)\<rparr>"
proof -
  have "slice2 (a @ s @ [x] @ b) 0 (int (length a + length s)) = a @ s"
    by (simp only: slice2_take_int) simp
  moreover have "slice1 (a @ s @ [x] @ b) (int (length a + length s + 1)) = b"
    by (simp only: slice1_drop_int) simp
  ultimately show ?thesis
    by (simp add: backspace_def Let_def)
qed

lemma backspaces_undo:
  "(backspace ^^ length s)
     \<lparr>text = a @ s @ b, columns = w, offset = int (length a + length s)\<rparr>
   = \<lparr>text = a @ b, columns = w, offset = int (length a)\<rparr>"
proof (induction s rule: rev_induct)
  case Nil
  show ?case by simp
next
  case (snoc x s)
  have "(backspace ^^ length (s @ [x]))
          \<lparr>text = a @ (s @ [x]) @ b, columns = w, offset = int (length a + length (s @ [x]))\<rparr>
        = (backspace ^^ length s)
            (backspace \<lparr>text = a @ s @ [x] @ b, columns = w,
                        offset = int (length a + length s + 1)\<rparr>)"
    by (simp add: funpow_swap1)
  also have "\<dots> = (backspace ^^ length s)
                     \<lparr>text = a @ s @ b, columns = w, offset = int (length a + length s)\<rparr>"
    by (simp only: backspace_snoc)
  finally show ?case using snoc.IH by simp
qed

lemma insertStr_split:
  assumes "valid c"
  shows "insertStr c s =
    \<lparr>text = take (nat (offset c)) (text c) @ s @ drop (nat (offset c)) (text c),
     columns = columns c,
     offset = int (length (take (nat (offset c)) (text c)) + length s)\<rparr>"
  using assms by (auto simp: insertStr_def Let_def slice2_take slice1_drop valid_def min_def)

text \<open>
  Claim C8. On a cursor that satisfies the invariant, inserting a non-empty string
  \<open>s\<close> and then applying \<open>backspace\<close> as many times as \<open>s\<close> is long gives back the
  original text and the original offset.
\<close>

theorem insert_then_backspaces:
  assumes "valid c" and "s \<noteq> []"
  shows "text ((backspace ^^ length s) (insertStr c s)) = text c \<and>
         offset ((backspace ^^ length s) (insertStr c s)) = offset c"
proof -
  have "(backspace ^^ length s) (insertStr c s) =
        \<lparr>text = take (nat (offset c)) (text c) @ drop (nat (offset c)) (text c),
         columns = columns c, offset = int (length (take (nat (offset c)) (text c)))\<rparr>"
    by (simp only: insertStr_split [OF assms(1)] backspaces_undo)
  then show ?thesis using assms(1) by (auto simp: valid_def min_def)
qed

theorem insert_then_backspaces_witness:
  "valid (fromText (js ''abcd'') 80 2) \<and> js ''xyz'' \<noteq> [] \<and>
   text ((backspace ^^ length (js ''xyz'')) (insertStr (fromText (js ''abcd'') 80 2) (js ''xyz'')))
     = js ''abcd'' \<and>
   offset ((backspace ^^ length (js ''xyz'')) (insertStr (fromText (js ''abcd'') 80 2) (js ''xyz'')))
     = 2"
proof -
  have v: "valid (fromText (js ''abcd'') 80 2)" by (rule valid_fromText)
  have n: "js ''xyz'' \<noteq> []" by (simp add: js_def)
  show ?thesis using v n insert_then_backspaces [OF v n]
    by (simp add: fromText_def js_def)
qed

subsection \<open>Deleting words\<close>

lemma take_mid_drop:
  assumes "0 \<le> p" "p \<le> q" "q \<le> int (length s)"
  shows "s = take (nat p) s @ slice2 s p q @ drop (nat q) s"
proof -
  have "slice2 s p q = take (nat q - nat p) (drop (nat p) s)"
    using assms by (simp add: slice2_def Let_def min_def nat_diff_distrib)
  moreover have "take (nat q - nat p) (drop (nat p) s) @ drop (nat q) s = drop (nat p) s"
  proof -
    have "drop (nat q) s = drop (nat q - nat p) (drop (nat p) s)"
      using assms by simp
    then show ?thesis by (simp only: append_take_drop_id)
  qed
  ultimately show ?thesis by simp
qed

text \<open>
  Claim C10. On every cursor, \<open>prevWord\<close> does not move the offset forward and
  \<open>nextWord\<close> does not move it back. On a cursor that satisfies the invariant of the
  data model, \<open>deleteWordBefore\<close> removes
  exactly the units from the offset of \<open>prevWord\<close> up to the offset and lands there;
  \<open>deleteWordAfter\<close> removes exactly the units from the offset up to the offset of
  \<open>nextWord\<close> and keeps the offset.
\<close>

theorem word_deletions:
  "(offset (prevWord c) \<le> offset c \<and> offset c \<le> offset (nextWord c)) \<and>
   (valid c \<longrightarrow>
      text c = take (nat (offset (prevWord c))) (text c)
               @ slice2 (text c) (offset (prevWord c)) (offset c)
               @ drop (nat (offset c)) (text c) \<and>
      text (deleteWordBefore c)
        = take (nat (offset (prevWord c))) (text c) @ drop (nat (offset c)) (text c) \<and>
      offset (deleteWordBefore c) = offset (prevWord c) \<and>
      text c = take (nat (offset c)) (text c)
               @ slice2 (text c) (offset c) (offset (nextWord c))
               @ drop (nat (offset (nextWord c))) (text c) \<and>
      text (deleteWordAfter c)
        = take (nat (offset c)) (text c) @ drop (nat (offset (nextWord c))) (text c) \<and>
      offset (deleteWordAfter c) = offset c)"
proof -
  have p2: "offset (prevWord c) \<le> offset c" by (rule prevWord_offset_le)
  have n1: "offset c \<le> offset (nextWord c)" by (rule nextWord_offset_ge)
  have 5: "offset (deleteWordBefore c) = offset (prevWord c)"
    by (simp add: deleteWordBefore_def Let_def)
  have 6: "offset (deleteWordAfter c) = offset c"
    by (simp add: deleteWordAfter_def Let_def)
  have rest: "text c = take (nat (offset (prevWord c))) (text c)
               @ slice2 (text c) (offset (prevWord c)) (offset c)
               @ drop (nat (offset c)) (text c) \<and>
      text (deleteWordBefore c)
        = take (nat (offset (prevWord c))) (text c) @ drop (nat (offset c)) (text c) \<and>
      text c = take (nat (offset c)) (text c)
               @ slice2 (text c) (offset c) (offset (nextWord c))
               @ drop (nat (offset (nextWord c))) (text c) \<and>
      text (deleteWordAfter c)
        = take (nat (offset c)) (text c) @ drop (nat (offset (nextWord c))) (text c)"
    if v: "valid c"
  proof -
    have o: "0 \<le> offset c" "offset c \<le> int (length (text c))"
      using v by (simp_all add: valid_def)
    have p1: "0 \<le> offset (prevWord c)"
      using o by (simp add: prevWord_offset_ge)
    have n2: "offset (nextWord c) \<le> int (length (text c))"
      using o by (simp add: nextWord_offset_le)
    have n0: "0 \<le> offset (nextWord c)" using o n1 by linarith
    have 1: "text c = take (nat (offset (prevWord c))) (text c)
                  @ slice2 (text c) (offset (prevWord c)) (offset c)
                  @ drop (nat (offset c)) (text c)"
      using p1 p2 o by (intro take_mid_drop)
    have 2: "text c = take (nat (offset c)) (text c)
                  @ slice2 (text c) (offset c) (offset (nextWord c))
                  @ drop (nat (offset (nextWord c))) (text c)"
      using n1 n2 o by (intro take_mid_drop)
    have 3: "text (deleteWordBefore c)
           = take (nat (offset (prevWord c))) (text c) @ drop (nat (offset c)) (text c)"
      using p1 o by (simp add: deleteWordBefore_def Let_def slice2_take slice1_drop)
    have 4: "text (deleteWordAfter c)
           = take (nat (offset c)) (text c) @ drop (nat (offset (nextWord c))) (text c)"
      using n0 o by (simp add: deleteWordAfter_def Let_def slice2_take slice1_drop)
    from 1 2 3 4 show ?thesis by blast
  qed
  from p2 n1 5 6 rest show ?thesis by blast
qed

theorem word_deletions_witness:
  "valid (fromText (js ''hello world'') 80 11) \<and>
   offset (prevWord (fromText (js ''hello world'') 80 11)) = 6 \<and>
   text (deleteWordBefore (fromText (js ''hello world'') 80 11)) = js ''hello '' \<and>
   offset (deleteWordBefore (fromText (js ''hello world'') 80 11)) = 6 \<and>
   valid (fromText (js ''hello world'') 80 0) \<and>
   offset (nextWord (fromText (js ''hello world'') 80 0)) = 6 \<and>
   text (deleteWordAfter (fromText (js ''hello world'') 80 0)) = js ''world'' \<and>
   offset (deleteWordAfter (fromText (js ''hello world'') 80 0)) = 0"
proof -
  have v: "valid (fromText (js ''hello world'') 80 11)" "valid (fromText (js ''hello world'') 80 0)"
    by (rule valid_fromText)+
  have p: "offset (prevWord (fromText (js ''hello world'') 80 11)) = 6" by code_simp
  have n: "offset (nextWord (fromText (js ''hello world'') 80 0)) = 6" by code_simp
  have t: "text (fromText (js ''hello world'') 80 11) = js ''hello world''"
    "offset (fromText (js ''hello world'') 80 11) = 11"
    "text (fromText (js ''hello world'') 80 0) = js ''hello world''"
    "offset (fromText (js ''hello world'') 80 0) = 0"
    by (simp_all add: fromText_def js_def)
  have b: "text (deleteWordBefore (fromText (js ''hello world'') 80 11)) = js ''hello '' \<and>
           offset (deleteWordBefore (fromText (js ''hello world'') 80 11)) = 6"
    using v(1) word_deletions [of "fromText (js ''hello world'') 80 11"] unfolding p t
    by (simp add: js_def)
  have a: "text (deleteWordAfter (fromText (js ''hello world'') 80 0)) = js ''world'' \<and>
           offset (deleteWordAfter (fromText (js ''hello world'') 80 0)) = 0"
    using v(2) word_deletions [of "fromText (js ''hello world'') 80 0"] unfolding n t
    by (simp add: js_def)
  show ?thesis using v p n a b by simp
qed

section \<open>Properties of the dispatcher\<close>

subsection \<open>First and last line\<close>

lemma split_nl_not_Nil: "split_nl s \<noteq> []"
  by (induction s) (simp_all split: list.splits)

lemma length_split_nl: "length (split_nl s) = Suc (length (filter (\<lambda>c. c = newline) s))"
proof (induction s)
  case Nil
  show ?case by simp
next
  case (Cons c cs)
  then show ?case
    using split_nl_not_Nil [of cs] by (cases "split_nl cs") auto
qed

lemma no_newline_filter: "newline \<notin> set s \<Longrightarrow> filter (\<lambda>c. c = newline) s = []"
  by (induction s) auto

lemma up_on_first_line:
  assumes "valid c" "onFirstLine c"
  shows "up c = c"
proof -
  have "slice2 (text c) 0 (offset c) = take (nat (offset c)) (text c)"
    using assms(1) by (simp add: slice2_take valid_def)
  then have "length (split_nl (slice2 (text c) 0 (offset c))) = 1"
    using assms(2) by (simp add: length_split_nl onFirstLine_def no_newline_filter)
  then have "fst (getLineColumn c) = 0"
    by (simp add: getLineColumn_def Let_def)
  then show ?thesis
    by (auto simp: up_def Let_def split: prod.splits)
qed

lemma down_on_last_line:
  assumes "valid c" "onLastLine c"
  shows "down c = c"
proof -
  have s: "slice2 (text c) 0 (offset c) = take (nat (offset c)) (text c)"
    using assms(1) by (simp add: slice2_take valid_def)
  have "filter (\<lambda>x. x = newline) (drop (nat (offset c)) (text c)) = []"
    using assms(2) by (simp add: onLastLine_def no_newline_filter)
  then have "filter (\<lambda>x. x = newline) (take (nat (offset c)) (text c) @ drop (nat (offset c)) (text c))
        = filter (\<lambda>x. x = newline) (take (nat (offset c)) (text c))"
    by (simp only: filter_append append_Nil2)
  then have "filter (\<lambda>x. x = newline) (text c)
        = filter (\<lambda>x. x = newline) (take (nat (offset c)) (text c))"
    by (simp only: append_take_drop_id)
  then have "length (split_nl (text c)) = length (split_nl (slice2 (text c) 0 (offset c)))"
    by (simp only: length_split_nl s)
  then have "fst (getLineColumn c) \<ge> length (split_nl (text c)) - 1"
    by (simp add: getLineColumn_def Let_def)
  then show ?thesis
    by (auto simp: down_def Let_def split: prod.splits)
qed

lemma equals_iff: "equals a b \<longleftrightarrow> a = b"
  by (auto simp: equals_def)

lemma plain_up_history:
  assumes "plainKey input key" "upArrow key" "equals (up (theCursor p)) (theCursor p)"
  shows "onInput env p st input key = (st, [OnHistoryUp])"
  using assms
  by (simp add: onInput_def mapKey_def upOrHistoryUp_def commit_def plainKey_def
      signalsBackspace_def equals_iff Let_def)

lemma plain_down_history:
  assumes "plainKey input key" "\<not> upArrow key" "downArrow key"
    "equals (down (theCursor p)) (theCursor p)"
  shows "onInput env p st input key = (st, [OnHistoryDown])"
  using assms
  by (simp add: onInput_def mapKey_def downOrHistoryDown_def commit_def plainKey_def
      signalsBackspace_def equals_iff Let_def)

text \<open>
  Claim C6. On a cursor within the invariant, \<open>up\<close> on the first line and \<open>down\<close> on
  the last line return the cursor itself. In the dispatcher, a plain up (down) arrow
  whose move returns a cursor equal to the current one calls the history callback and
  commits nothing: no offset is set and no change is reported.
\<close>

theorem first_last_line_history:
  "(valid c \<and> onFirstLine c \<longrightarrow> up c = c \<and> equals (up c) c) \<and>
   (valid c \<and> onLastLine c \<longrightarrow> down c = c \<and> equals (down c) c) \<and>
   (plainKey input key \<and> upArrow key \<and> equals (up (theCursor p)) (theCursor p) \<longrightarrow>
      onInput env p st input key = (st, [OnHistoryUp])) \<and>
   (plainKey input key \<and> \<not> upArrow key \<and> downArrow key \<and>
    equals (down (theCursor p)) (theCursor p) \<longrightarrow>
      onInput env p st input key = (st, [OnHistoryDown]))"
  by (simp add: up_on_first_line down_on_last_line plain_up_history plain_down_history
      equals_iff)

theorem first_last_line_history_witness:
  "(valid (theCursor twoLines) \<and> onFirstLine (theCursor twoLines)) \<and>
   up (theCursor twoLines) = theCursor twoLines \<and>
   (valid (theCursor (twoLines\<lparr>externalOffset := 4\<rparr>)) \<and>
    onLastLine (theCursor (twoLines\<lparr>externalOffset := 4\<rparr>))) \<and>
   down (theCursor (twoLines\<lparr>externalOffset := 4\<rparr>)) = theCursor (twoLines\<lparr>externalOffset := 4\<rparr>) \<and>
   (plainKey [] (noKey\<lparr>upArrow := True\<rparr>) \<and> upArrow (noKey\<lparr>upArrow := True\<rparr>) \<and>
    equals (up (theCursor twoLines)) (theCursor twoLines)) \<and>
   onInput (atTime 0) twoLines initialInputState [] (noKey\<lparr>upArrow := True\<rparr>)
     = (initialInputState, [OnHistoryUp]) \<and>
   (plainKey [] (noKey\<lparr>downArrow := True\<rparr>) \<and> \<not> upArrow (noKey\<lparr>downArrow := True\<rparr>) \<and>
    downArrow (noKey\<lparr>downArrow := True\<rparr>) \<and>
    equals (down (theCursor (twoLines\<lparr>externalOffset := 4\<rparr>)))
      (theCursor (twoLines\<lparr>externalOffset := 4\<rparr>))) \<and>
   onInput (atTime 0) (twoLines\<lparr>externalOffset := 4\<rparr>) initialInputState [] (noKey\<lparr>downArrow := True\<rparr>)
     = (initialInputState, [OnHistoryDown])"
proof -
  let ?p2 = "twoLines\<lparr>externalOffset := 4\<rparr>"
  have v1: "valid (theCursor twoLines)" and v2: "valid (theCursor ?p2)"
    by (simp_all add: theCursor_def valid_fromText)
  have f: "onFirstLine (theCursor twoLines)" by code_simp
  have l: "onLastLine (theCursor ?p2)" by code_simp
  have ku: "plainKey [] (noKey\<lparr>upArrow := True\<rparr>)" "upArrow (noKey\<lparr>upArrow := True\<rparr>)"
    by (simp_all add: plainKey_def noKey_def signalsBackspace_def isBackspaceInput_def)
  have kd: "plainKey [] (noKey\<lparr>downArrow := True\<rparr>)" "\<not> upArrow (noKey\<lparr>downArrow := True\<rparr>)"
    "downArrow (noKey\<lparr>downArrow := True\<rparr>)"
    by (simp_all add: plainKey_def noKey_def signalsBackspace_def isBackspaceInput_def)
  have eu: "equals (up (theCursor twoLines)) (theCursor twoLines)" by code_simp
  have ed: "equals (down (theCursor ?p2)) (theCursor ?p2)" by code_simp
  show ?thesis
    using v1 v2 f l ku kd eu ed
      first_last_line_history [of "theCursor twoLines" "[]" "noKey\<lparr>upArrow := True\<rparr>"
        twoLines "atTime 0" initialInputState]
      first_last_line_history [of "theCursor ?p2" "[]" "noKey\<lparr>downArrow := True\<rparr>"
        ?p2 "atTime 0" initialInputState]
    by simp
qed

subsection \<open>Backspace comes first\<close>

lemma backspace_first:
  assumes "signalsBackspace input key"
  shows "onInput env p st input key = (st, commit (theCursor p) (backspace (theCursor p)))"
  using assms by (simp add: onInput_def Let_def)

text \<open>
  Claim C7. When the backspace or delete flag is set, or the literal is the backspace
  character (BS, 8) or DEL (127), the dispatcher applies \<open>backspace\<close> to the cursor
  and commits the result; no other flag of the key and no other rule has any effect,
  and the state of the three double-press sites is untouched. The component forwards
  such a chunk at once: its buffer and its timer stay as they were, also when a buffer
  is open.
\<close>

theorem backspace_first_and_unbuffered:
  assumes "signalsBackspace input key"
  shows "onInput env p st input key = (st, commit (theCursor p) (backspace (theCursor p))) \<and>
         wrappedOnInput env p ts input key
           = (ts, commit (theCursor p) (backspace (theCursor p)))"
proof -
  have "signalsBackspace input (key\<lparr>backspaceKey := True\<rparr>)"
    by (simp add: signalsBackspace_def)
  then have "onInput env p (inputState ts) input (key\<lparr>backspaceKey := True\<rparr>)
             = (inputState ts, commit (theCursor p) (backspace (theCursor p)))"
    by (rule backspace_first)
  then have "wrappedOnInput env p ts input key
             = (ts, commit (theCursor p) (backspace (theCursor p)))"
    using assms by (simp add: wrappedOnInput_def)
  then show ?thesis using backspace_first [OF assms] by simp
qed

theorem backspace_first_and_unbuffered_witness:
  "signalsBackspace (js ''c'') (noKey\<lparr>deleteKey := True, returnKey := True, ctrl := True\<rparr>) \<and>
   onInput (atTime 0) (twoLines\<lparr>externalOffset := 4\<rparr>) initialInputState (js ''c'')
       (noKey\<lparr>deleteKey := True, returnKey := True, ctrl := True\<rparr>)
     = (initialInputState, [SetOffset 3, OnChange (js ''ab'' @ [newline] @ js ''d'')]) \<and>
   wrappedOnInput (atTime 0) (twoLines\<lparr>externalOffset := 4\<rparr>) openBuffer (js ''c'')
       (noKey\<lparr>deleteKey := True, returnKey := True, ctrl := True\<rparr>)
     = (openBuffer, [SetOffset 3, OnChange (js ''ab'' @ [newline] @ js ''d'')])"
proof -
  let ?k = "noKey\<lparr>deleteKey := True, returnKey := True, ctrl := True\<rparr>"
  let ?p = "twoLines\<lparr>externalOffset := 4\<rparr>"
  have s: "signalsBackspace (js ''c'') ?k"
    by (simp add: signalsBackspace_def noKey_def)
  have c: "commit (theCursor ?p) (backspace (theCursor ?p))
           = [SetOffset 3, OnChange (js ''ab'' @ [newline] @ js ''d'')]"
    by code_simp
  show ?thesis
    using s backspace_first_and_unbuffered [OF s, of "atTime 0" ?p initialInputState openBuffer]
    unfolding c by simp
qed

section \<open>Properties of the double-press hook\<close>

lemma press_cancels: "press timeout t st = press timeout t (st\<lparr>timeoutRef := None\<rparr>)"
  by (simp add: press_def Let_def)

lemma press_double:
  assumes "t - lastPressTime st < timeout"
  shows "press timeout t st = (\<lparr>lastPressTime = 0, timeoutRef = None\<rparr>, [ShowMessage False, OnDoublePress])"
  using assms by (simp add: press_def Let_def)

lemma press_first:
  assumes "\<not> t - lastPressTime st < timeout"
  shows "press timeout t st
         = (\<lparr>lastPressTime = t, timeoutRef = Some (t + timeout)\<rparr>, [ShowMessage True])"
  using assms by (simp add: press_def Let_def)

lemma timer_after_double:
  "timerFires \<lparr>lastPressTime = 0, timeoutRef = None\<rparr> = (\<lparr>lastPressTime = 0, timeoutRef = None\<rparr>, [])"
  by (simp add: timerFires_def)

lemma timer_after_first:
  "timerFires \<lparr>lastPressTime = t, timeoutRef = Some d\<rparr>
   = (\<lparr>lastPressTime = t, timeoutRef = None\<rparr>, [ShowMessage False, OnSinglePress])"
  by (simp add: timerFires_def)

lemma single_press_timeline:
  assumes "\<not> t - lastPressTime (fst (elapse t st)) < timeout"
  shows "pressesAt timeout st [t]
         = snd (elapse t st) @ [ShowMessage True, ShowMessage False, OnSinglePress]"
  using assms
  by (cases "elapse t st") (simp add: press_first timer_after_first)

lemma lastPressTime_elapse: "lastPressTime (fst (elapse t st)) = lastPressTime st"
  by (simp add: elapse_def timerFires_def split: option.splits)

lemma double_press_timeline:
  assumes "\<not> t - lastPressTime st < timeout" "t \<le> t'" "t' < t + timeout"
  shows "pressesAt timeout st [t, t']
         = snd (elapse t st) @ [ShowMessage True, ShowMessage False, OnDoublePress]"
proof -
  obtain st1 out1 where e: "elapse t st = (st1, out1)" by (cases "elapse t st")
  have l: "lastPressTime st1 = lastPressTime st"
    using lastPressTime_elapse [of t st] e by simp
  have p1: "press timeout t st1
            = (\<lparr>lastPressTime = t, timeoutRef = Some (t + timeout)\<rparr>, [ShowMessage True])"
    using assms(1) l by (simp add: press_first)
  have e2: "elapse t' \<lparr>lastPressTime = t, timeoutRef = Some (t + timeout)\<rparr>
            = (\<lparr>lastPressTime = t, timeoutRef = Some (t + timeout)\<rparr>, [])"
    using assms(3) by (simp add: elapse_def)
  have p2: "press timeout t' \<lparr>lastPressTime = t, timeoutRef = Some (t + timeout)\<rparr>
            = (\<lparr>lastPressTime = 0, timeoutRef = None\<rparr>, [ShowMessage False, OnDoublePress])"
    using assms(3) by (simp add: press_double)
  show ?thesis
    by (simp add: e p1 e2 p2 timer_after_double)
qed

text \<open>
  Claim C2. The hook reads the clock itself (\<open>Date.now()\<close>, milliseconds since 1970),
  so a press happens at a clock value that is not below the timeout. A call of
  \<open>press\<close> at the clock value \<open>t\<close> first cancels the pending timer (its result does
  not depend on it). If \<open>t - lastPressTime < timeout\<close> it resets \<open>lastPressTime\<close> to
  0 and runs \<open>ShowMessage False\<close>, then \<open>OnDoublePress\<close>; no timer is left, so
  \<open>OnSinglePress\<close> does not run. Otherwise it sets \<open>lastPressTime\<close> to \<open>t\<close>, runs
  \<open>ShowMessage True\<close> and arms a timer that runs \<open>ShowMessage False\<close>, then
  \<open>OnSinglePress\<close>, unless a further press before the deadline cancels it, and that
  press is a double press. The example: the times 0 and 300 of the scenario are counted
  from the clock value \<open>T\<close> of its start; on a fresh hook with the timeout 800 the two
  presses run \<open>ShowMessage True\<close>, \<open>ShowMessage False\<close>, \<open>OnDoublePress\<close>, and never
  \<open>OnSinglePress\<close>.
\<close>

theorem press_classifies:
  "press timeout t st = press timeout t (st\<lparr>timeoutRef := None\<rparr>) \<and>
   (t - lastPressTime st < timeout \<longrightarrow>
      press timeout t st
        = (\<lparr>lastPressTime = 0, timeoutRef = None\<rparr>, [ShowMessage False, OnDoublePress]) \<and>
      snd (timerFires (fst (press timeout t st))) = []) \<and>
   (\<not> t - lastPressTime st < timeout \<longrightarrow>
      press timeout t st
        = (\<lparr>lastPressTime = t, timeoutRef = Some (t + timeout)\<rparr>, [ShowMessage True]) \<and>
      snd (timerFires (fst (press timeout t st))) = [ShowMessage False, OnSinglePress] \<and>
      pressesAt timeout st [t]
        = snd (elapse t st) @ [ShowMessage True, ShowMessage False, OnSinglePress] \<and>
      (t \<le> t' \<and> t' < t + timeout \<longrightarrow>
         pressesAt timeout st [t, t']
           = snd (elapse t st) @ [ShowMessage True, ShowMessage False, OnDoublePress])) \<and>
   (800 \<le> T \<longrightarrow>
      pressesAt 800 initialDoublePress (map (\<lambda>t. T + t) [0, 300])
        = [ShowMessage True, ShowMessage False, OnDoublePress])"
proof -
  have a: "press timeout t st = press timeout t (st\<lparr>timeoutRef := None\<rparr>)"
    by (rule press_cancels)
  have b: "snd (timerFires (fst (press timeout t st))) = []" if "t - lastPressTime st < timeout"
    using that by (simp add: press_double timer_after_double)
  have c: "snd (timerFires (fst (press timeout t st))) = [ShowMessage False, OnSinglePress]"
    if "\<not> t - lastPressTime st < timeout"
    using that by (simp add: press_first timer_after_first)
  have d: "pressesAt timeout st [t]
        = snd (elapse t st) @ [ShowMessage True, ShowMessage False, OnSinglePress]"
    if "\<not> t - lastPressTime st < timeout"
    using that by (intro single_press_timeline) (simp add: lastPressTime_elapse)
  have e: "pressesAt 800 initialDoublePress (map (\<lambda>t. T + t) [0, 300])
        = [ShowMessage True, ShowMessage False, OnDoublePress]" if "800 \<le> T"
    using that double_press_timeline [of T initialDoublePress 800 "T + 300"]
    by (simp add: initialDoublePress_def elapse_def)
  show ?thesis
    using a b c d e press_double [of t st timeout] press_first [of t st timeout]
      double_press_timeline [of t st timeout t']
    by blast
qed

theorem press_classifies_witness:
  "(1300 - lastPressTime \<lparr>lastPressTime = 1000, timeoutRef = Some 1800\<rparr> < (800 :: int) \<and>
    press 800 1300 \<lparr>lastPressTime = 1000, timeoutRef = Some 1800\<rparr>
      = (\<lparr>lastPressTime = 0, timeoutRef = None\<rparr>, [ShowMessage False, OnDoublePress])) \<and>
   (\<not> 1000 - lastPressTime initialDoublePress < (800 :: int) \<and>
    press 800 1000 initialDoublePress
      = (\<lparr>lastPressTime = 1000, timeoutRef = Some 1800\<rparr>, [ShowMessage True]) \<and>
    pressesAt 800 initialDoublePress [1000]
      = [ShowMessage True, ShowMessage False, OnSinglePress]) \<and>
   ((1000 :: int) \<le> 1300 \<and> (1300 :: int) < 1000 + 800 \<and> (800 :: int) \<le> 1000 \<and>
    pressesAt 800 initialDoublePress [1000, 1000 + 300]
      = [ShowMessage True, ShowMessage False, OnDoublePress])"
  using press_classifies [of 800 1300 "\<lparr>lastPressTime = 1000, timeoutRef = Some 1800\<rparr>" 1300 1000]
    press_classifies [of 800 1000 initialDoublePress 1300 1000]
  by (simp add: initialDoublePress_def elapse_def press_def timerFires_def Let_def)

text \<open>
  Claim C4. A double press resets \<open>lastPressTime\<close> to 0. The next press, at any clock
  value \<open>t'\<close> (a value of \<open>Date.now()\<close>, so not below the timeout), takes the
  first-press branch however soon it comes: it runs \<open>ShowMessage True\<close> only, records
  \<open>t'\<close> and arms the timer; \<open>OnDoublePress\<close> does not run.
\<close>

theorem press_after_double:
  assumes "t - lastPressTime st < timeout" and "timeout \<le> t'"
  shows "press timeout t' (fst (press timeout t st))
           = (\<lparr>lastPressTime = t', timeoutRef = Some (t' + timeout)\<rparr>, [ShowMessage True]) \<and>
         OnDoublePress \<notin> set (snd (press timeout t' (fst (press timeout t st))))"
  using assms by (simp add: press_double press_first)

theorem press_after_double_witness:
  "1000300 - lastPressTime \<lparr>lastPressTime = 1000000, timeoutRef = Some 1000800\<rparr> < (800 :: int) \<and>
   (800 :: int) \<le> 1000400 \<and>
   press 800 1000400 (fst (press 800 1000300 \<lparr>lastPressTime = 1000000, timeoutRef = Some 1000800\<rparr>))
     = (\<lparr>lastPressTime = 1000400, timeoutRef = Some 1001200\<rparr>, [ShowMessage True])"
proof -
  have a: "1000300 - lastPressTime \<lparr>lastPressTime = 1000000, timeoutRef = Some 1000800\<rparr> < (800 :: int)"
    by simp
  have b: "(800 :: int) \<le> 1000400" by simp
  show ?thesis using a b press_after_double [OF a b] by simp
qed

section \<open>Properties of the paste detection\<close>

lemma chunk_buffered:
  assumes "\<not> signalsBackspace input key" "looksLikePaste (pasteState ts) input"
  shows "wrappedOnInput env p ts input key = (buffered env ts input, [])"
  using assms by (simp add: wrappedOnInput_def buffered_def)

lemma chunk_forwarded:
  assumes "\<not> signalsBackspace input key" "\<not> looksLikePaste (pasteState ts) input"
  shows "wrappedOnInput env p ts input key
         = (ts\<lparr>inputState := fst (onInput env p (inputState ts) input key)\<rparr>,
            snd (onInput env p (inputState ts) input key))"
  using assms by (simp add: wrappedOnInput_def split: prod.splits)

lemma timer_flushes:
  assumes "timeoutId (pasteState ts) = Some d"
  shows "pasteTimerFires ts
         = (ts\<lparr>pasteState := emptyPasteState\<rparr>, [OnPaste (concat (chunks (pasteState ts)))])"
  using assms by (simp add: pasteTimerFires_def)

text \<open>Once the buffer is open, every further chunk joins it.\<close>

lemma open_buffer_collects:
  assumes "timeoutId (pasteState ts) \<noteq> None"
    and "\<forall>(env, input, key) \<in> set burst. \<not> signalsBackspace input key"
  shows "snd (chunksArrive p ts burst) = [] \<and>
         inputState (fst (chunksArrive p ts burst)) = inputState ts \<and>
         chunks (pasteState (fst (chunksArrive p ts burst)))
           = chunks (pasteState ts) @ map (\<lambda>(env, input, key). input) burst \<and>
         timeoutId (pasteState (fst (chunksArrive p ts burst))) \<noteq> None"
  using assms
proof (induction burst arbitrary: ts)
  case Nil
  then show ?case by simp
next
  case (Cons e burst)
  obtain env input key where e: "e = (env, input, key)" by (cases e)
  have nb: "\<not> signalsBackspace input key" using Cons.prems(2) e by simp
  have lp: "looksLikePaste (pasteState ts) input"
    using Cons.prems(1) by (simp add: looksLikePaste_def)
  have w: "wrappedOnInput env p ts input key = (buffered env ts input, [])"
    using nb lp by (rule chunk_buffered)
  have ih: "snd (chunksArrive p (buffered env ts input) burst) = [] \<and>
         inputState (fst (chunksArrive p (buffered env ts input) burst))
           = inputState (buffered env ts input) \<and>
         chunks (pasteState (fst (chunksArrive p (buffered env ts input) burst)))
           = chunks (pasteState (buffered env ts input)) @ map (\<lambda>(env, input, key). input) burst \<and>
         timeoutId (pasteState (fst (chunksArrive p (buffered env ts input) burst))) \<noteq> None"
    using Cons.prems(2) by (intro Cons.IH) (simp_all add: buffered_def)
  show ?case
    using ih by (simp add: e w buffered_def split: prod.splits)
qed

lemma burst_collected:
  assumes "pasteState ts = emptyPasteState"
    and "\<not> signalsBackspace input key"
    and "length input > 20 \<or> startsWithQuoteSlash input"
    and "\<forall>(env, input, key) \<in> set rest. \<not> signalsBackspace input key"
  shows "snd (chunksArrive p ts ((env, input, key) # rest)) = [] \<and>
         pasteTimerFires (fst (chunksArrive p ts ((env, input, key) # rest)))
           = (ts, [OnPaste (concat (input # map (\<lambda>(env, input, key). input) rest))])"
proof -
  have lp: "looksLikePaste (pasteState ts) input"
    using assms(3) by (auto simp: looksLikePaste_def)
  have w: "wrappedOnInput env p ts input key = (buffered env ts input, [])"
    using assms(2) lp by (rule chunk_buffered)
  let ?ts' = "fst (chunksArrive p (buffered env ts input) rest)"
  have c: "snd (chunksArrive p (buffered env ts input) rest) = [] \<and>
         inputState ?ts' = inputState (buffered env ts input) \<and>
         chunks (pasteState ?ts')
           = chunks (pasteState (buffered env ts input)) @ map (\<lambda>(env, input, key). input) rest \<and>
         timeoutId (pasteState ?ts') \<noteq> None"
    using assms(4) by (intro open_buffer_collects) (simp_all add: buffered_def)
  then obtain d where d: "timeoutId (pasteState ?ts') = Some d" by blast
  have ch: "chunks (pasteState ?ts') = input # map (\<lambda>(env, input, key). input) rest"
    using c assms(1) by (simp add: buffered_def emptyPasteState_def)
  have "?ts'\<lparr>pasteState := emptyPasteState\<rparr> = ts"
    using c assms(1) by (simp add: buffered_def)
  then have "pasteTimerFires ?ts'
             = (ts, [OnPaste (concat (input # map (\<lambda>(env, input, key). input) rest))])"
    using timer_flushes [OF d] ch by simp
  then show ?thesis
    using c by (simp add: w split: prod.splits)
qed

text \<open>
  Claim C3. A chunk that does not signal backspace is appended to the buffer, and the
  50 ms timer is armed anew, exactly when it is longer than 20 units, or a buffer is
  open, or it starts with the two units \<open>'/\<close>; otherwise it goes to the dispatcher at
  once, with its key unchanged, and the buffer stays as it was. When the timer runs, one
  \<open>OnPaste\<close> carries the concatenation of the buffered chunks and the buffer is empty
  again; for a burst that starts on an empty buffer, that is the concatenation of the
  chunks of the burst in the order of arrival, and nothing was sent to the dispatcher.
\<close>

theorem paste_coalescing:
  "(\<not> signalsBackspace input key \<and> looksLikePaste (pasteState ts) input \<longrightarrow>
      wrappedOnInput env p ts input key
        = (ts\<lparr>pasteState :=
                \<lparr>chunks = chunks (pasteState ts) @ [input],
                 timeoutId = Some (now env + 50),
                 totalLength = sum_list (map length (chunks (pasteState ts))) + length input\<rparr>\<rparr>,
           [])) \<and>
   (\<not> signalsBackspace input key \<and> \<not> looksLikePaste (pasteState ts) input \<longrightarrow>
      wrappedOnInput env p ts input key
        = (ts\<lparr>inputState := fst (onInput env p (inputState ts) input key)\<rparr>,
           snd (onInput env p (inputState ts) input key))) \<and>
   (looksLikePaste (pasteState ts) input \<longleftrightarrow>
      length input > 20 \<or> timeoutId (pasteState ts) \<noteq> None \<or> take 2 input = [39, 47]) \<and>
   (timeoutId (pasteState ts) \<noteq> None \<longrightarrow>
      pasteTimerFires ts
        = (ts\<lparr>pasteState := emptyPasteState\<rparr>, [OnPaste (concat (chunks (pasteState ts)))])) \<and>
   (pasteState ts = emptyPasteState \<and> \<not> signalsBackspace input key \<and>
    (length input > 20 \<or> take 2 input = [39, 47]) \<and>
    (\<forall>(env, input, key) \<in> set rest. \<not> signalsBackspace input key) \<longrightarrow>
      snd (chunksArrive p ts ((env, input, key) # rest)) = [] \<and>
      pasteTimerFires (fst (chunksArrive p ts ((env, input, key) # rest)))
        = (ts, [OnPaste (concat (input # map (\<lambda>(env, input, key). input) rest))]))"
proof -
  have 1: "wrappedOnInput env p ts input key
        = (ts\<lparr>pasteState :=
                \<lparr>chunks = chunks (pasteState ts) @ [input],
                 timeoutId = Some (now env + 50),
                 totalLength = sum_list (map length (chunks (pasteState ts))) + length input\<rparr>\<rparr>,
           [])"
    if "\<not> signalsBackspace input key" "looksLikePaste (pasteState ts) input"
    using chunk_buffered [OF that] by (simp add: buffered_def)
  have 3: "looksLikePaste (pasteState ts) input \<longleftrightarrow>
      length input > 20 \<or> timeoutId (pasteState ts) \<noteq> None \<or> take 2 input = [39, 47]"
    by (simp add: looksLikePaste_def startsWithQuoteSlash_def)
  have 4: "pasteTimerFires ts
        = (ts\<lparr>pasteState := emptyPasteState\<rparr>, [OnPaste (concat (chunks (pasteState ts)))])"
    if "timeoutId (pasteState ts) \<noteq> None"
    using that timer_flushes [of ts] by auto
  have 5: "snd (chunksArrive p ts ((env, input, key) # rest)) = [] \<and>
      pasteTimerFires (fst (chunksArrive p ts ((env, input, key) # rest)))
        = (ts, [OnPaste (concat (input # map (\<lambda>(env, input, key). input) rest))])"
    if "pasteState ts = emptyPasteState" "\<not> signalsBackspace input key"
      "length input > 20 \<or> take 2 input = [39, 47]"
      "\<forall>(env, input, key) \<in> set rest. \<not> signalsBackspace input key"
    using that by (intro burst_collected) (simp_all add: startsWithQuoteSlash_def)
  show ?thesis
    using 1 3 4 5 chunk_forwarded [of input key ts env p] by blast
qed

theorem paste_coalescing_witness:
  "(\<not> signalsBackspace longChunk noKey \<and> looksLikePaste (pasteState idle) longChunk) \<and>
   wrappedOnInput (atTime 1000) twoLines idle longChunk noKey
     = (idle\<lparr>pasteState := \<lparr>chunks = [longChunk], timeoutId = Some 1050, totalLength = 25\<rparr>\<rparr>, []) \<and>
   (\<not> signalsBackspace (js ''x'') noKey \<and> \<not> looksLikePaste (pasteState idle) (js ''x'')) \<and>
   wrappedOnInput (atTime 1000) twoLines idle (js ''x'') noKey
     = (idle, [SetOffset 2, OnChange (js ''axb'' @ [newline] @ js ''cd'')]) \<and>
   timeoutId (pasteState openBuffer) \<noteq> None \<and>
   pasteTimerFires openBuffer
     = (openBuffer\<lparr>pasteState := emptyPasteState\<rparr>, [OnPaste (js ''pasted'')]) \<and>
   (pasteState idle = emptyPasteState \<and> length longChunk > 20 \<and>
    \<not> signalsBackspace (js ''z'') noKey) \<and>
   pasteTimerFires
     (fst (chunksArrive twoLines idle [(atTime 1000, longChunk, noKey), (atTime 1010, js ''z'', noKey)]))
     = (idle, [OnPaste (longChunk @ js ''z'')])"
proof -
  have h1: "\<not> signalsBackspace longChunk noKey" by code_simp
  have h2: "looksLikePaste (pasteState idle) longChunk" by code_simp
  have h3: "\<not> signalsBackspace (js ''x'') noKey" by code_simp
  have h4: "\<not> looksLikePaste (pasteState idle) (js ''x'')" by code_simp
  have h5: "timeoutId (pasteState openBuffer) \<noteq> None" by (simp add: openBuffer_def)
  have h6: "pasteState idle = emptyPasteState" by (simp add: idle_def)
  have h7: "length longChunk > 20" by (simp add: longChunk_def js_def)
  have h8: "\<forall>(env, input, key) \<in> set [(atTime 1010, js ''z'', noKey)]. \<not> signalsBackspace input key"
    by (simp add: signalsBackspace_def noKey_def isBackspaceInput_def js_def)
  have e1: "chunks (pasteState idle) = []" "now (atTime 1000) + 50 = 1050"
    "length longChunk = 25"
    by (simp_all add: idle_def emptyPasteState_def atTime_def longChunk_def js_def)
  have e2: "onInput (atTime 1000) twoLines (inputState idle) (js ''x'') noKey
            = (inputState idle, [SetOffset 2, OnChange (js ''axb'' @ [newline] @ js ''cd'')])"
    by code_simp
  have e3: "idle\<lparr>inputState := inputState idle\<rparr> = idle" by simp
  have e4: "chunks (pasteState openBuffer) = [js ''pasted'']" by (simp add: openBuffer_def)
  note A = paste_coalescing [of longChunk noKey idle "atTime 1000" twoLines
      "[(atTime 1010, js ''z'', noKey)]"]
  note B = paste_coalescing [of "js ''x''" noKey idle "atTime 1000" twoLines "[]"]
  note C = paste_coalescing [of "[]" noKey openBuffer "atTime 1000" twoLines "[]"]
  have a: "wrappedOnInput (atTime 1000) twoLines idle longChunk noKey
     = (idle\<lparr>pasteState := \<lparr>chunks = [longChunk], timeoutId = Some 1050, totalLength = 25\<rparr>\<rparr>, [])"
    using A h1 h2 by (simp add: e1)
  have b: "wrappedOnInput (atTime 1000) twoLines idle (js ''x'') noKey
     = (idle, [SetOffset 2, OnChange (js ''axb'' @ [newline] @ js ''cd'')])"
    using B h3 h4 by (simp add: e2 e3)
  have c: "pasteTimerFires openBuffer
     = (openBuffer\<lparr>pasteState := emptyPasteState\<rparr>, [OnPaste (js ''pasted'')])"
    using C h5 by (simp add: e4)
  have d: "pasteTimerFires
     (fst (chunksArrive twoLines idle [(atTime 1000, longChunk, noKey), (atTime 1010, js ''z'', noKey)]))
     = (idle, [OnPaste (longChunk @ js ''z'')])"
  proof -
    have "pasteTimerFires
       (fst (chunksArrive twoLines idle ((atTime 1000, longChunk, noKey) # [(atTime 1010, js ''z'', noKey)])))
       = (idle, [OnPaste (concat (longChunk # map (\<lambda>(env, input, key). input)
                                     [(atTime 1010, js ''z'', noKey)]))])"
      using A h1 h6 h7 h8 by blast
    moreover have "concat (longChunk # map (\<lambda>(env, input, key). input)
                     [(atTime 1010, js ''z'', noKey)]) = longChunk @ js ''z''"
      by simp
    ultimately show ?thesis by (simp only:)
  qed
  have h9: "\<not> signalsBackspace (js ''z'') noKey" using h8 by simp
  show ?thesis using h1 h2 h3 h4 h5 h6 h7 h9 a b c d by blast
qed

end
